theory Spec2Isabelle
  imports Main "HOL-Library.Word"
begin

section \<open>Go function values: calls with side effects and panics\<close>

text \<open>
  The library is a set of generic Go functions over function values:
  \<^verbatim>\<open>type Result[A any] func() (A, error)\<close> and \<^verbatim>\<open>type Nilable[A any] *A\<close>.
  A Go function value may read and write whatever its closure captured, and a call of it
  may panic (a call of a nil function value always does). Both are written out: a call
  starts in a state of the world \<open>'s\<close> and either panics or returns a value together
  with the state it left behind.
\<close>

datatype ('x, 's) run = Panic | Returns 'x 's

type_synonym ('s, 'x) go = "'s \<Rightarrow> ('x, 's) run"

text \<open>\<open>ret x\<close> is \<^verbatim>\<open>return x\<close>: no effect, no panic.\<close>

definition ret :: "'x \<Rightarrow> ('s, 'x) go" where
  "ret x = (\<lambda>s. Returns x s)"

text \<open>
  \<open>call m k\<close> is \<^verbatim>\<open>x := m(); ...k...\<close>: the call of \<open>m\<close> happens first, a panic of
  \<open>m\<close> unwinds through the caller, and the rest runs in the state \<open>m\<close> left.
\<close>

definition call :: "('s, 'x) go \<Rightarrow> ('x \<Rightarrow> ('s, 'y) go) \<Rightarrow> ('s, 'y) go" where
  "call m k = (\<lambda>s. case m s of Panic \<Rightarrow> Panic | Returns x s' \<Rightarrow> k x s')"

text \<open>
  A value of Go's interface type \<^verbatim>\<open>error\<close> is \<open>None\<close> for \<^verbatim>\<open>nil\<close> and \<open>Some e\<close>
  for an error \<open>e\<close>. A \<^verbatim>\<open>Result[A]\<close> is a function value that returns the pair
  \<^verbatim>\<open>(A, error)\<close>.
\<close>

type_synonym ('a, 'e, 's) Result = "('s, 'a \<times> 'e option) go"

text \<open>
  \<open>panic\<close> is a call that panics: the call of a nil function value of type
  \<^verbatim>\<open>func() X\<close>, or the dereference of a nil pointer. The zero value of a function type
  \<^verbatim>\<open>func(X) Y\<close> is the nil function \<open>nil_func\<close>.
\<close>

definition panic :: "('s, 'x) go" where
  "panic = (\<lambda>s. Panic)"

definition nil_func :: "'x \<Rightarrow> ('s, 'y) go" where
  "nil_func x = panic"

text \<open>
  A \<^verbatim>\<open>Nilable[A]\<close> is a pointer: \<open>None\<close> is \<^verbatim>\<open>nil\<close>, \<open>Some v\<close> points to \<open>v\<close>.
  Dereferencing \<^verbatim>\<open>*ma\<close> panics on \<^verbatim>\<open>nil\<close>.
\<close>

type_synonym 'a Nilable = "'a option"

definition deref :: "'a Nilable \<Rightarrow> ('s, 'a) go" where
  "deref ma = (case ma of None \<Rightarrow> panic | Some v \<Rightarrow> ret v)"

section \<open>The package \<^verbatim>\<open>result\<close>\<close>

text \<open>
  Each generic function takes, in the model, the zero value of its result type \<open>A\<close> or
  \<open>B\<close> as its first argument \<open>z\<close>: Go picks it from the type argument
  (\<^verbatim>\<open>Error[B](err)\<close> returns the never assigned named result \<^verbatim>\<open>a A\<close>).
\<close>

definition Ok :: "'a \<Rightarrow> ('a, 'e, 's) Result" where
  "Ok a = ret (a, None)"

definition Error :: "'a \<Rightarrow> 'e option \<Rightarrow> ('a, 'e, 's) Result" where
  "Error z err = ret (z, err)"


definition Map ::
  "'b \<Rightarrow> ('a, 'e, 's) Result \<Rightarrow> ('a \<Rightarrow> ('s, 'b) go) \<Rightarrow> ('s, ('b, 'e, 's) Result) go" where
  "Map zb fa f =
     call fa (\<lambda>(a, err).
       if err \<noteq> None then ret (Error zb err)
       else call (f a) (\<lambda>b. ret (Ok b)))"

definition MapError ::
  "'a \<Rightarrow> ('a, 'e, 's) Result \<Rightarrow> ('e option \<Rightarrow> ('s, 'e option) go) \<Rightarrow>
   ('s, ('a, 'e, 's) Result) go" where
  "MapError za fa f =
     call fa (\<lambda>(_, err).
       if err \<noteq> None then call (f err) (\<lambda>err'. ret (Error za err'))
       else ret fa)"

definition Ap ::
  "'b \<Rightarrow> ('a \<Rightarrow> ('s, 'b) go, 'e, 's) Result \<Rightarrow> ('a, 'e, 's) Result \<Rightarrow>
   ('s, ('b, 'e, 's) Result) go" where
  "Ap zb fab fa =
     call fab (\<lambda>(ab, err).
       if err \<noteq> None then ret (Error zb err)
       else call fa (\<lambda>(a, err).
         if err \<noteq> None then ret (Error zb err)
         else call (ab a) (\<lambda>b. ret (Ok b))))"

definition Chain ::
  "'b \<Rightarrow> ('a, 'e, 's) Result \<Rightarrow> ('a \<Rightarrow> ('s, ('b, 'e, 's) Result) go) \<Rightarrow>
   ('s, ('b, 'e, 's) Result) go" where
  "Chain zb ma f =
     call ma (\<lambda>(a, err).
       if err \<noteq> None then ret (Error zb err)
       else f a)"

text \<open>
  The unexported \<^verbatim>\<open>fst[A, B]\<close> and \<^verbatim>\<open>snd[A, B]\<close>: a call returns a closure and
  has no effect.
\<close>

definition fst_of :: "'a \<Rightarrow> ('s, 'b \<Rightarrow> ('s, 'a) go) go" where
  "fst_of a = ret (\<lambda>b. ret a)"

definition snd_of :: "'a \<Rightarrow> ('s, 'b \<Rightarrow> ('s, 'b) go) go" where
  "snd_of a = ret (\<lambda>b. ret b)"

definition ChainFirst ::
  "'a \<Rightarrow> ('a, 'e, 's) Result \<Rightarrow> ('a \<Rightarrow> ('s, ('b, 'e, 's) Result) go) \<Rightarrow>
   ('s, ('a, 'e, 's) Result) go" where
  "ChainFirst za ma f =
     Chain za ma (\<lambda>a.
       call (f a) (\<lambda>fb.
         call (fst_of a) (\<lambda>g. Map za fb g)))"

definition Bimap ::
  "'b \<Rightarrow> ('a, 'e, 's) Result \<Rightarrow> ('e option \<Rightarrow> ('s, 'e option) go) \<Rightarrow>
   ('a \<Rightarrow> ('s, 'b) go) \<Rightarrow> ('s, ('b, 'e, 's) Result) go" where
  "Bimap zb fa f g =
     call fa (\<lambda>(a, err).
       if err \<noteq> None then call (f err) (\<lambda>err'. ret (Error zb err'))
       else call (g a) (\<lambda>b. ret (Ok b)))"

text \<open>
  \<^verbatim>\<open>Map(fa, fst[A, B])\<close> is a \<^verbatim>\<open>Result[func(B) A]\<close>, so its zero value is the nil
  function.
\<close>

definition ApFirst ::
  "'a \<Rightarrow> ('a, 'e, 's) Result \<Rightarrow> ('b, 'e, 's) Result \<Rightarrow> ('s, ('a, 'e, 's) Result) go" where
  "ApFirst za fa fb = call (Map nil_func fa fst_of) (\<lambda>fab. Ap za fab fb)"

definition ApSecond ::
  "'b \<Rightarrow> ('a, 'e, 's) Result \<Rightarrow> ('b, 'e, 's) Result \<Rightarrow> ('s, ('b, 'e, 's) Result) go" where
  "ApSecond zb fa fb = call (Map nil_func fa snd_of) (\<lambda>fab. Ap zb fab fb)"

definition Fold ::
  "('a, 'e, 's) Result \<Rightarrow> ('e option \<Rightarrow> ('s, 'b) go) \<Rightarrow> ('a \<Rightarrow> ('s, 'b) go) \<Rightarrow> ('s, 'b) go" where
  "Fold ma onError onSuccess =
     call ma (\<lambda>(a, err).
       if err \<noteq> None then onError err
       else onSuccess a)"

definition GetOrElse ::
  "('a, 'e, 's) Result \<Rightarrow> ('e option \<Rightarrow> ('s, 'a) go) \<Rightarrow> ('s, 'a) go" where
  "GetOrElse ma onError =
     call ma (\<lambda>(a, err).
       if err \<noteq> None then onError err
       else ret a)"

definition OrElse ::
  "('a, 'e, 's) Result \<Rightarrow> ('e option \<Rightarrow> ('s, ('a, 'e, 's) Result) go) \<Rightarrow>
   ('s, ('a, 'e, 's) Result) go" where
  "OrElse ma onError =
     call ma (\<lambda>(_, err).
       if err \<noteq> None then onError err
       else ret ma)"

text \<open>\<^verbatim>\<open>data.Predicate[A]\<close> is \<^verbatim>\<open>func(A) bool\<close>.\<close>

definition FilterOrElse ::
  "'a \<Rightarrow> ('a, 'e, 's) Result \<Rightarrow> ('a \<Rightarrow> ('s, bool) go) \<Rightarrow> ('a \<Rightarrow> ('s, 'e option) go) \<Rightarrow>
   ('s, ('a, 'e, 's) Result) go" where
  "FilterOrElse za ma predicate onFalse =
     Chain za ma (\<lambda>a.
       call (predicate a) (\<lambda>p.
         if p then ret (Ok a)
         else call (onFalse a) (\<lambda>err. ret (Error za err))))"

definition Fork ::
  "('a, 'e, 's) Result \<Rightarrow> ('e option \<Rightarrow> ('s, unit) go) \<Rightarrow> ('a \<Rightarrow> ('s, unit) go) \<Rightarrow>
   ('s, unit) go" where
  "Fork ma onError onSuccess =
     call ma (\<lambda>(a, err).
       if err \<noteq> None then onError err
       else onSuccess a)"

definition FromNilable ::
  "'a \<Rightarrow> 'a Nilable \<Rightarrow> ('s, 'e option) go \<Rightarrow> ('s, ('a, 'e, 's) Result) go" where
  "FromNilable za ma onNil =
     (if ma = None then call onNil (\<lambda>err. ret (Error za err))
      else call (deref ma) (\<lambda>v. ret (Ok v)))"

section \<open>Observing a computation\<close>

text \<open>
  The caller of a \<^verbatim>\<open>Result\<close> reads the returned pair as a tagged outcome, the way
  the tests do (\<^verbatim>\<open>x, err := res(); if err != nil ...\<close>): a failure with the error when
  the error is not nil, a success with the value otherwise.
\<close>

datatype ('e, 'a) outcome = Failure 'e | Success 'a

definition outcome_of :: "'a \<times> 'e option \<Rightarrow> ('e, 'a) outcome" where
  "outcome_of p = (case snd p of None \<Rightarrow> Success (fst p) | Some e \<Rightarrow> Failure e)"

text \<open>\<open>yields r\<close> invokes the computation \<open>r\<close> and reads its outcome.\<close>

definition yields :: "('a, 'e, 's) Result \<Rightarrow> ('s, ('e, 'a) outcome) go" where
  "yields r = call r (\<lambda>p. ret (outcome_of p))"

text \<open>
  \<open>invoke m\<close> evaluates an expression \<open>m\<close> that builds a computation and invokes what it
  built: \<^verbatim>\<open>result.Map(fa, f)()\<close>.
\<close>

definition invoke :: "('s, ('a, 'e, 's) Result) go \<Rightarrow> ('a, 'e, 's) Result" where
  "invoke m = call m (\<lambda>r. r)"

text \<open>
  Counting calls. \<open>counted m\<close> is \<open>m\<close> with a counter beside the state that every call
  of it increments; \<open>lifted m\<close> is \<open>m\<close> running beside the counter without touching it.
  \<open>invocations m s\<close> runs \<open>m\<close> from \<open>s\<close> with the counter at 0 and reads the counter
  (\<open>None\<close> when \<open>m\<close> panicked). With one argument of a combinator counted and the
  others lifted, the counter holds the number of calls of that argument that the
  combinator's own code made.
\<close>

definition counted :: "('s, 'x) go \<Rightarrow> (nat \<times> 's, 'x) go" where
  "counted m = (\<lambda>(n, s). case m s of Panic \<Rightarrow> Panic | Returns x s' \<Rightarrow> Returns x (Suc n, s'))"

definition lifted :: "('s, 'x) go \<Rightarrow> (nat \<times> 's, 'x) go" where
  "lifted m = (\<lambda>(n, s). case m s of Panic \<Rightarrow> Panic | Returns x s' \<Rightarrow> Returns x (n, s'))"

definition invocations :: "(nat \<times> 's, 'x) go \<Rightarrow> 's \<Rightarrow> nat option" where
  "invocations m s = (case m (0, s) of Panic \<Rightarrow> None | Returns x t \<Rightarrow> Some (fst t))"

text \<open>
  Callbacks beside the counter: \<open>lifted_fn f\<close> for a callback that returns a plain value,
  \<open>lifted_mk f\<close> for one that returns a computation (the computation it returns runs
  beside the counter as well), \<open>lifted_fab\<close> for a computation that yields a function.
\<close>

definition lifted_fn :: "('a \<Rightarrow> ('s, 'x) go) \<Rightarrow> ('a \<Rightarrow> (nat \<times> 's, 'x) go)" where
  "lifted_fn f = (\<lambda>a. lifted (f a))"

definition counted_fn :: "('a \<Rightarrow> ('s, 'x) go) \<Rightarrow> ('a \<Rightarrow> (nat \<times> 's, 'x) go)" where
  "counted_fn f = (\<lambda>a. counted (f a))"

definition lifted_mk ::
  "('a \<Rightarrow> ('s, ('s, 'x) go) go) \<Rightarrow> ('a \<Rightarrow> (nat \<times> 's, (nat \<times> 's, 'x) go) go)" where
  "lifted_mk f = (\<lambda>a. call (lifted (f a)) (\<lambda>r. ret (lifted r)))"

definition lifted_fab ::
  "('a \<Rightarrow> ('s, 'b) go, 'e, 's) Result \<Rightarrow> ('a \<Rightarrow> (nat \<times> 's, 'b) go, 'e, nat \<times> 's) Result" where
  "lifted_fab fab = call (lifted fab) (\<lambda>(ab, err). ret (lifted_fn ab, err))"

definition counted_fab ::
  "('a \<Rightarrow> ('s, 'b) go, 'e, 's) Result \<Rightarrow> ('a \<Rightarrow> (nat \<times> 's, 'b) go, 'e, nat \<times> 's) Result" where
  "counted_fab fab = call (counted fab) (\<lambda>(ab, err). ret (lifted_fn ab, err))"

text \<open>\<open>returns m s\<close>: the call of \<open>m\<close> in state \<open>s\<close> does not panic.\<close>

definition returns :: "('s, 'x) go \<Rightarrow> 's \<Rightarrow> bool" where
  "returns m s = (m s \<noteq> Panic)"



text \<open>
  Pure callbacks: \<open>pure f\<close> is a Go function that computes \<open>f\<close> with no effect.
\<close>

definition pure :: "('a \<Rightarrow> 'b) \<Rightarrow> ('a \<Rightarrow> ('s, 'b) go)" where
  "pure f = (\<lambda>a. ret (f a))"

text \<open>
  The helpers of the test file. Go's \<^verbatim>\<open>int\<close> is a 64-bit two's complement integer:
  \<^verbatim>\<open>double\<close> wraps around, \<^verbatim>\<open>isPositive\<close> reads its argument as signed. Errors
  are their messages: \<^verbatim>\<open>errFailed\<close> is \<^verbatim>\<open>errors.New("failed")\<close>, and
  \<^verbatim>\<open>wrappedError\<close> is \<^verbatim>\<open>fmt.Errorf("wrapped: %w", err)\<close>, which never returns nil.
\<close>

type_synonym go_int = "64 word"

definition double :: "go_int \<Rightarrow> ('s, go_int) go" where
  "double n = ret (n * 2)"

definition isPositive :: "go_int \<Rightarrow> ('s, bool) go" where
  "isPositive n = ret (sint n > 0)"

definition errFailed :: "string option" where
  "errFailed = Some ''failed''"

definition wrappedError :: "string option \<Rightarrow> ('s, string option) go" where
  "wrappedError err =
     ret (Some (''wrapped: '' @ (case err of None \<Rightarrow> ''%!w(<nil>)'' | Some e \<Rightarrow> e)))"

text \<open>
  A computation with an effect, as a closure over a counter is: it succeeds with the
  number of times it was invoked before, and the state of the world is that number.
  \<^verbatim>\<open>n := 0; tick := func() (int, error) { n++; return n - 1, nil }\<close>
\<close>

definition tick :: "(go_int, string, nat) Result" where
  "tick = (\<lambda>n. Returns (of_nat n, None) (Suc n))"

section \<open>Calls, step by step\<close>

lemma call_apply: "call m k s = (case m s of Panic \<Rightarrow> Panic | Returns x s' \<Rightarrow> k x s')"
  by (simp add: call_def)

lemma lifted_apply:
  "lifted m (n, s) = (case m s of Panic \<Rightarrow> Panic | Returns x s' \<Rightarrow> Returns x (n, s'))"
  by (simp add: lifted_def)

lemma counted_apply:
  "counted m (n, s) = (case m s of Panic \<Rightarrow> Panic | Returns x s' \<Rightarrow> Returns x (Suc n, s'))"
  by (simp add: counted_def)

lemmas step_defs = call_apply ret_def Ok_def Error_def

lemmas run_defs = step_defs yields_def invoke_def outcome_of_def pure_def

lemmas count_defs = invocations_def returns_def call_apply lifted_apply counted_apply
  lifted_fn_def counted_fn_def lifted_mk_def lifted_fab_def counted_fab_def ret_def


lemmas helper_defs = double_def isPositive_def errFailed_def wrappedError_def tick_def
  fst_of_def snd_of_def nil_func_def deref_def panic_def

lemma yields_Ok: "yields (Ok v) = ret (Success v)"
  by (rule ext) (simp add: run_defs)

lemma yields_Error: "yields (Error z (Some e)) = ret (Failure e)"
  by (rule ext) (simp add: run_defs)

section \<open>The model against the repository's tests\<close>

text \<open>
  The table of \<^verbatim>\<open>TestResult\<close>: each case builds a computation, invokes it and
  compares what it yields; none of them has an effect on the state.
\<close>

lemma TestResult_constructors:
  "yields (Ok 42 :: (go_int, string, 's) Result) = ret (Success 42)
   \<and> yields (Error (0 :: go_int) errFailed :: (go_int, string, 's) Result) = ret (Failure ''failed'')"
  by (simp add: yields_Ok yields_Error errFailed_def)

lemma TestResult_Map:
  "yields (invoke (Map 0 (Ok 1) double)) s = Returns (Success 2) s
   \<and> yields (invoke (Map 0 (Error 0 errFailed) double)) s = Returns (Failure ''failed'') s
   \<and> yields (invoke (MapError 0 (Ok (42 :: go_int)) wrappedError)) s = Returns (Success 42) s
   \<and> yields (invoke (MapError (0 :: go_int) (Error 0 errFailed) wrappedError)) s
       = Returns (Failure ''wrapped: failed'') s
   \<and> yields (invoke (call (Bimap False (Ok (- 1)) wrappedError isPositive)
         (\<lambda>m. Map (0 :: go_int) m (pure (\<lambda>n. if n then 1 else 2))))) s = Returns (Success 2) s
   \<and> yields (invoke (call (Bimap False (Error 0 errFailed) wrappedError isPositive)
         (\<lambda>m. Map (0 :: go_int) m (pure (\<lambda>n. if n then 1 else 2))))) s
       = Returns (Failure ''wrapped: failed'') s"
  by (simp add: Map_def MapError_def Bimap_def run_defs helper_defs)

lemma TestResult_Ap:
  "yields (invoke (Ap 0 (Ok double) (Ok 42))) s = Returns (Success 84) s
   \<and> yields (invoke (Ap 0 (Ok double) (Error 0 errFailed))) s = Returns (Failure ''failed'') s
   \<and> yields (invoke (ApFirst (0 :: go_int) (Ok 1) (Ok (2 :: go_int)))) s = Returns (Success 1) s
   \<and> yields (invoke (ApFirst (0 :: go_int) (Error 0 errFailed) (Ok (2 :: go_int)))) s
       = Returns (Failure ''failed'') s
   \<and> yields (invoke (ApSecond (0 :: go_int) (Ok (1 :: go_int)) (Ok 2))) s = Returns (Success 2) s
   \<and> yields (invoke (ApSecond (0 :: go_int) (Ok (1 :: go_int)) (Error 0 errFailed))) s
       = Returns (Failure ''failed'') s"
  by (simp add: Ap_def ApFirst_def ApSecond_def Map_def run_defs helper_defs)

lemma TestResult_Chain:
  "yields (invoke (Chain (0 :: go_int) (Ok (42 :: go_int)) (\<lambda>a. ret (Ok (a + 1))))) s
       = Returns (Success 43) s
   \<and> yields (invoke (Chain (0 :: go_int) (Error (0 :: go_int) errFailed) (\<lambda>a. ret (Ok (a + 1))))) s
       = Returns (Failure ''failed'') s
   \<and> yields (invoke (FromNilable (0 :: go_int) (Some 42) (ret errFailed))) s
       = Returns (Success 42) s
   \<and> yields (invoke (FromNilable (0 :: go_int) None (ret errFailed))) s
       = Returns (Failure ''failed'') s"
  by (simp add: Chain_def FromNilable_def run_defs helper_defs)

section \<open>Counting the invocations of an input\<close>

lemma Map_once:
  "invocations (Map zb (counted fa) (lifted_fn f)) s
     = (if returns (Map zb fa f) s then Some 1 else None)"
  by (auto simp: Map_def count_defs split: run.splits prod.splits)

lemma MapError_once:
  "invocations (MapError za (counted fa) (lifted_fn f)) s
     = (if returns (MapError za fa f) s then Some 1 else None)"
  by (auto simp: MapError_def count_defs split: run.splits prod.splits)

lemma Bimap_once:
  "invocations (Bimap zb (counted fa) (lifted_fn f) (lifted_fn g)) s
     = (if returns (Bimap zb fa f g) s then Some 1 else None)"
  by (auto simp: Bimap_def count_defs split: run.splits prod.splits)

lemma Chain_once:
  "invocations (Chain zb (counted ma) (lifted_mk f)) s
     = (if returns (Chain zb ma f) s then Some 1 else None)"
  by (auto simp: Chain_def count_defs split: run.splits prod.splits)

lemma ChainFirst_once:
  "invocations (ChainFirst za (counted ma) (lifted_mk f)) s
     = (if returns (ChainFirst za ma f) s then Some 1 else None)"
  by (auto simp: ChainFirst_def Chain_def Map_def fst_of_def count_defs
      split: run.splits prod.splits)

lemma FilterOrElse_once:
  "invocations (FilterOrElse za (counted ma) (lifted_fn p) (lifted_fn onFalse)) s
     = (if returns (FilterOrElse za ma p onFalse) s then Some 1 else None)"
  by (auto simp: FilterOrElse_def Chain_def count_defs split: run.splits prod.splits)

lemma OrElse_once:
  "invocations (OrElse (counted ma) (lifted_mk onError)) s
     = (if returns (OrElse ma onError) s then Some 1 else None)"
  by (auto simp: OrElse_def count_defs split: run.splits prod.splits)

lemma Ap_fab_once:
  "invocations (Ap zb (counted_fab fab) (lifted fa)) s
     = (if returns (Ap zb fab fa) s then Some 1 else None)"
  by (auto simp: Ap_def count_defs split: run.splits prod.splits)

lemma Ap_fa_once:
  "invocations (Ap zb (lifted_fab fab) (counted fa)) s
     = (case Ap zb fab fa s of
          Panic \<Rightarrow> None
        | Returns r s' \<Rightarrow>
            (case fab s of
               Panic \<Rightarrow> None
             | Returns p s1 \<Rightarrow> if snd p \<noteq> None then Some 0 else Some 1))"
  by (auto simp: Ap_def count_defs split: run.splits prod.splits)

lemma Map_invoke_once:
  "invocations (invoke (Map zb (counted fa) (lifted_fn f))) s
     = (if returns (Map zb fa f) s then Some 1 else None)"
  by (auto simp: Map_def invoke_def Ok_def Error_def count_defs split: run.splits prod.splits)

lemma Bimap_invoke_once:
  "invocations (invoke (Bimap zb (counted fa) (lifted_fn f) (lifted_fn g))) s
     = (if returns (Bimap zb fa f g) s then Some 1 else None)"
  by (auto simp: Bimap_def invoke_def Ok_def Error_def count_defs split: run.splits prod.splits)

lemma ChainFirst_invoke_once:
  "invocations (invoke (ChainFirst za (counted ma) (lifted_mk f))) s
     = (if returns (ChainFirst za ma f) s then Some 1 else None)"
  by (auto simp: ChainFirst_def Chain_def Map_def fst_of_def invoke_def Ok_def Error_def count_defs
      split: run.splits prod.splits)

lemma FilterOrElse_invoke_once:
  "invocations (invoke (FilterOrElse za (counted ma) (lifted_fn p) (lifted_fn onFalse))) s
     = (if returns (FilterOrElse za ma p onFalse) s then Some 1 else None)"
  by (auto simp: FilterOrElse_def Chain_def invoke_def Ok_def Error_def count_defs
      split: run.splits prod.splits)

lemma Ap_fab_invoke_once:
  "invocations (invoke (Ap zb (counted_fab fab) (lifted fa))) s
     = (if returns (Ap zb fab fa) s then Some 1 else None)"
  by (auto simp: Ap_def invoke_def Ok_def Error_def count_defs split: run.splits prod.splits)

lemma Ap_fa_invoke_once:
  "invocations (invoke (Ap zb (lifted_fab fab) (counted fa))) s
     = invocations (Ap zb (lifted_fab fab) (counted fa)) s"
  by (auto simp: Ap_def invoke_def Ok_def Error_def count_defs split: run.splits prod.splits)

section \<open>Panics\<close>



















section \<open>Laws\<close>

lemma Map_Map: "call (Map zb fa f) (\<lambda>fb. Map zc fb g) = Map zc fa (\<lambda>a. call (f a) g)"
  by (rule ext) (simp add: Map_def run_defs split: run.splits prod.splits)

lemma Map_id: "yields (invoke (Map za fa (pure id))) = yields fa"
  by (rule ext) (simp add: Map_def run_defs split: run.splits prod.splits option.splits)

lemma pure_comp: "(\<lambda>a. call (pure f a) (pure g)) = pure (g \<circ> f)"
  by (rule ext, rule ext) (simp add: run_defs)

lemma Chain_Ok_left: "Chain zb (Ok a) f = f a"
  by (rule ext) (simp add: Chain_def step_defs)

lemma Chain_Ok_right: "yields (invoke (Chain za ma (pure Ok))) = yields ma"
  by (rule ext) (simp add: Chain_def run_defs split: run.splits prod.splits option.splits)

lemma Chain_Chain:
  "call (Chain zb ma f) (\<lambda>mb. Chain zc mb g) = Chain zc ma (\<lambda>a. call (f a) (\<lambda>mb. Chain zc mb g))"
  by (rule ext) (simp add: Chain_def step_defs split: run.splits prod.splits)

lemma Bimap_as_maps:
  assumes again: "\<forall>s a s'. fa s = Returns (a, None) s' \<longrightarrow> fa s' = Returns (a, None) s'"
    and not_nil: "\<forall>e s s'. f (Some e) s \<noteq> Returns None s'"
  shows "call (MapError za fa f) (\<lambda>m. Map zb m g) = Bimap zb fa f g"
proof (rule ext)
  fix s
  show "call (MapError za fa f) (\<lambda>m. Map zb m g) s = Bimap zb fa f g s"
  proof (cases "fa s")
    case Panic
    then show ?thesis
      by (simp add: MapError_def Bimap_def call_apply)
  next
    case (Returns p s1)
    obtain a err where p: "p = (a, err)"
      by (cases p)
    show ?thesis
    proof (cases err)
      case None
      with Returns p again have "fa s1 = Returns (a, None) s1"
        by blast
      with Returns p None show ?thesis
        by (simp add: MapError_def Bimap_def Map_def step_defs)
    next
      case (Some e)
      show ?thesis
      proof (cases "f (Some e) s1")
        case Panic
        with \<open>fa s = Returns p s1\<close> p Some show ?thesis
          by (simp add: MapError_def Bimap_def Map_def step_defs)
      next
        case (Returns err' s2)
        with not_nil obtain e' where "err' = Some e'"
          by (cases err') auto
        with Returns \<open>fa s = Returns p s1\<close> p Some show ?thesis
          by (simp add: MapError_def Bimap_def Map_def step_defs)
      qed
    qed
  qed
qed

section \<open>The claims\<close>

subsection \<open>Laziness\<close>

text \<open>
  C1, refuted as stated. The claim: building Map, MapError, Bimap, Ap, Chain, ChainFirst,
  FilterOrElse or OrElse invokes no input computation. On the code every one of them
  invokes its input while it is built: built from \<open>tick\<close> in state 0 (never invoked),
  each leaves the state at 1, and what Map, Bimap, Ap, Chain, ChainFirst and
  FilterOrElse return is already the constant \<^verbatim>\<open>Ok(0)\<close> or \<^verbatim>\<open>Error(e)\<close>.
\<close>

theorem building_invokes_counterexample:
  "Map 0 tick double 0 = Returns (Ok 0) 1
   \<and> MapError 0 tick wrappedError 0 = Returns tick 1
   \<and> Bimap 0 tick wrappedError double 0 = Returns (Ok 0) 1
   \<and> Ap 0 (Ok double) tick 0 = Returns (Ok 0) 1
   \<and> Chain (0 :: go_int) tick (pure Ok) 0 = Returns (Ok 0) 1
   \<and> ChainFirst 0 tick (pure (Ok :: go_int \<Rightarrow> (go_int, string, nat) Result)) 0
       = Returns (Ok 0) 1
   \<and> FilterOrElse 0 tick isPositive (pure (\<lambda>n. Some ''not positive'')) 0
       = Returns (Error 0 (Some ''not positive'')) 1
   \<and> OrElse tick (pure (Error 0)) 0 = Returns tick 1"
  by (simp add: Map_def MapError_def Bimap_def Ap_def Chain_def ChainFirst_def FilterOrElse_def
      OrElse_def run_defs helper_defs)

text \<open>
  C1, as amended. The combinators are eager. Building Map, MapError, Bimap, Chain,
  ChainFirst, FilterOrElse or OrElse invokes the input computation exactly once (whenever
  the building returns at all); building \<^verbatim>\<open>Ap(fab, fa)\<close> invokes \<open>fab\<close> exactly once,
  and \<open>fa\<close> exactly once if \<open>fab\<close> succeeded and not at all if it failed. Invoking
  what Map, Bimap, Ap, ChainFirst or FilterOrElse built invokes the input no further:
  building and invoking together still count one invocation.
\<close>

theorem combinators_eager:
  "invocations (Map zb (counted fa) (lifted_fn f)) s
     = (if returns (Map zb fa f) s then Some 1 else None)
   \<and> invocations (MapError za (counted fa) (lifted_fn fe)) s
     = (if returns (MapError za fa fe) s then Some 1 else None)
   \<and> invocations (Bimap zb (counted fa) (lifted_fn fe) (lifted_fn f)) s
     = (if returns (Bimap zb fa fe f) s then Some 1 else None)
   \<and> invocations (Ap zb (counted_fab fab) (lifted fa)) s
     = (if returns (Ap zb fab fa) s then Some 1 else None)
   \<and> invocations (Ap zb (lifted_fab fab) (counted fa)) s
     = (case Ap zb fab fa s of
          Panic \<Rightarrow> None
        | Returns r s' \<Rightarrow>
            (case fab s of
               Panic \<Rightarrow> None
             | Returns p s1 \<Rightarrow> if snd p \<noteq> None then Some 0 else Some 1))
   \<and> invocations (Chain zb (counted fa) (lifted_mk k)) s
     = (if returns (Chain zb fa k) s then Some 1 else None)
   \<and> invocations (ChainFirst za (counted fa) (lifted_mk k)) s
     = (if returns (ChainFirst za fa k) s then Some 1 else None)
   \<and> invocations (FilterOrElse za (counted fa) (lifted_fn p) (lifted_fn onFalse)) s
     = (if returns (FilterOrElse za fa p onFalse) s then Some 1 else None)
   \<and> invocations (OrElse (counted fa) (lifted_mk onError)) s
     = (if returns (OrElse fa onError) s then Some 1 else None)
   \<and> invocations (invoke (Map zb (counted fa) (lifted_fn f))) s
     = invocations (Map zb (counted fa) (lifted_fn f)) s
   \<and> invocations (invoke (Bimap zb (counted fa) (lifted_fn fe) (lifted_fn f))) s
     = invocations (Bimap zb (counted fa) (lifted_fn fe) (lifted_fn f)) s
   \<and> invocations (invoke (Ap zb (counted_fab fab) (lifted fa))) s
     = invocations (Ap zb (counted_fab fab) (lifted fa)) s
   \<and> invocations (invoke (Ap zb (lifted_fab fab) (counted fa))) s
     = invocations (Ap zb (lifted_fab fab) (counted fa)) s
   \<and> invocations (invoke (ChainFirst za (counted fa) (lifted_mk k))) s
     = invocations (ChainFirst za (counted fa) (lifted_mk k)) s
   \<and> invocations (invoke (FilterOrElse za (counted fa) (lifted_fn p) (lifted_fn onFalse))) s
     = invocations (FilterOrElse za (counted fa) (lifted_fn p) (lifted_fn onFalse)) s"
  by (simp only: Map_once MapError_once Bimap_once Ap_fab_once Ap_fa_once Chain_once
      ChainFirst_once FilterOrElse_once OrElse_once Map_invoke_once Bimap_invoke_once
      Ap_fab_invoke_once Ap_fa_invoke_once ChainFirst_invoke_once FilterOrElse_invoke_once
      simp_thms)

theorem combinators_eager_witness:
  "invocations (Map 0 (counted tick) (lifted_fn double)) 0 = Some 1
   \<and> invocations (invoke (Map 0 (counted tick) (lifted_fn double))) 0 = Some 1
   \<and> invocations (Ap (0 :: go_int) (counted_fab (Ok double)) (lifted tick)) 0 = Some 1
   \<and> invocations (Ap (0 :: go_int) (lifted_fab (Ok double)) (counted tick)) 0 = Some 1
   \<and> invocations (OrElse (counted tick) (lifted_mk (pure (Error 0)))) 0 = Some 1"
  using combinators_eager [where fa = tick and f = double and fab = "Ok double" and zb = 0
      and s = 0 and onError = "pure (Error 0)"]
  by (simp add: returns_def Map_def Ap_def OrElse_def run_defs helper_defs)

subsection \<open>Ap\<close>

text \<open>
  C2. Ap evaluates the function side strictly before the argument side. If \<open>fab\<close>
  fails with \<open>e\<close>, \<^verbatim>\<open>Ap(fab, fa)\<close> is the computation that fails with \<open>e\<close>, the state
  is the one \<open>fab\<close> left, the result is the same for every other argument \<open>fa'\<close>, and
  \<open>fa\<close> has been invoked zero times. If \<open>fab\<close> succeeds with \<open>ab\<close> and \<open>fa\<close>, invoked
  next, fails with \<open>e\<close>, the result fails with \<open>e\<close>. If both succeed, with \<open>ab\<close> and
  \<open>a\<close>, and \<open>ab a\<close> returns \<open>b\<close>, the result succeeds with \<open>b\<close>.
\<close>

theorem Ap_function_before_argument:
  "(fab (s :: 's) = Returns (ab, Some e) s1 \<longrightarrow>
      Ap zb fab fa s = Returns (Error zb (Some e)) s1
      \<and> Ap zb fab fa' s = Ap zb fab fa s
      \<and> invocations (Ap zb (lifted_fab fab) (counted fa)) s = Some 0)
   \<and> (fab s = Returns (ab, None) s1 \<and> fa s1 = Returns (a, Some e) s2 \<longrightarrow>
      Ap zb fab fa s = Returns (Error zb (Some e)) s2)
   \<and> (fab s = Returns (ab, None) s1 \<and> fa s1 = Returns (a, None) s2
        \<and> ab a s2 = Returns b s3 \<longrightarrow>
      Ap zb fab fa s = Returns (Ok b) s3)
   \<and> yields (Error zb (Some e) :: ('b, 'e, 's) Result) = ret (Failure e)
   \<and> yields (Ok b :: ('b, 'e, 's) Result) = ret (Success b)"
  by (auto simp: Ap_def count_defs run_defs split: run.splits prod.splits)

theorem Ap_function_before_argument_witness:
  "Ap (0 :: go_int) (Error nil_func errFailed) tick 0 = Returns (Error 0 (Some ''failed'')) 0
   \<and> invocations (Ap (0 :: go_int) (lifted_fab (Error nil_func errFailed)) (counted tick)) 0
       = Some 0
   \<and> Ap 0 (Ok double) (Error 0 (Some ''failed'')) (0 :: nat)
       = Returns (Error 0 (Some ''failed'')) 0
   \<and> Ap 0 (Ok double) tick 1 = Returns (Ok 2) 2"
  using
    Ap_function_before_argument [where fab = "Error nil_func errFailed" and s = 0
      and ab = nil_func and e = "''failed''" and ?s1.0 = 0 and fa = tick
      and zb = "0 :: go_int" and fa' = "Ok 7" and b = 0]
    Ap_function_before_argument [where fab = "Ok double" and s = "0 :: nat" and ab = double
      and ?s1.0 = 0 and fa = "Error 0 (Some ''failed'')" and a = 0 and e = "''failed''"
      and ?s2.0 = 0 and zb = 0 and b = 0]
    Ap_function_before_argument [where fab = "Ok double" and s = 1 and ab = double
      and ?s1.0 = 1 and fa = tick and a = 1 and ?s2.0 = 2 and b = 2 and ?s3.0 = 2 and zb = 0
      and e = "''failed''"]
  by (simp add: step_defs helper_defs)

subsection \<open>Totality and the two outcomes\<close>



subsection \<open>The laws of Chain and Map\<close>

text \<open>
  C4. Chain satisfies the monad laws. Left identity: \<^verbatim>\<open>Chain(Ok(a), f)\<close> is \<^verbatim>\<open>f(a)\<close>,
  the same effects while building and the same computation built. Right identity:
  \<^verbatim>\<open>Chain(ma, Ok)\<close>, built and invoked, yields what \<open>ma\<close> invoked yields, with the same
  effects. Associativity: \<^verbatim>\<open>Chain(Chain(ma, f), g)\<close> is
  \<^verbatim>\<open>Chain(ma, a => Chain(f(a), g))\<close>, the same effects while building and the same
  computation built. Each side is evaluated from the same state.
\<close>

theorem Chain_monad_laws:
  "Chain zb (Ok a) f = f a
   \<and> yields (invoke (Chain za ma (pure Ok))) = yields ma
   \<and> call (Chain zb ma f) (\<lambda>mb. Chain zc mb g)
       = Chain zc ma (\<lambda>a. call (f a) (\<lambda>mb. Chain zc mb g))
   \<and> yields (invoke (call (Chain zb ma f) (\<lambda>mb. Chain zc mb g)))
       = yields (invoke (Chain zc ma (\<lambda>a. call (f a) (\<lambda>mb. Chain zc mb g))))"
  by (simp add: Chain_Ok_left Chain_Ok_right Chain_Chain)

text \<open>
  C5. Map satisfies the functor laws, on the success and on the failure path alike.
  Composition: \<^verbatim>\<open>Map(Map(fa, f), g)\<close> is \<^verbatim>\<open>Map(fa, g . f)\<close>, the same effects while
  building and the same computation built, for callbacks with effects (where \<open>g . f\<close>
  calls \<open>f\<close>, then \<open>g\<close>) and so for pure functions. Identity: \<^verbatim>\<open>Map(fa, identity)\<close>,
  built and invoked, yields what \<open>fa\<close> invoked yields, with the same effects.
\<close>

theorem Map_functor_laws:
  "call (Map zb fa f) (\<lambda>fb. Map zc fb g) = Map zc fa (\<lambda>a. call (f a) g)
   \<and> yields (invoke (call (Map zb fa (pure f')) (\<lambda>fb. Map zc fb (pure g'))))
       = yields (invoke (Map zc fa (pure (g' \<circ> f'))))
   \<and> yields (invoke (Map za fa (pure id))) = yields fa"
  by (simp add: Map_Map Map_id pure_comp)

subsection \<open>Recovery and filtering\<close>

text \<open>
  C6. \<^verbatim>\<open>OrElse(Ok(x), f)\<close> returns the computation \<^verbatim>\<open>Ok(x)\<close> it was given, whatever
  \<open>f\<close> is and with no effect, so \<open>f\<close> is not invoked (it may be nil);
  \<^verbatim>\<open>OrElse(Error(e), f)\<close> is \<^verbatim>\<open>f(e)\<close>, for every error \<open>e\<close>.
\<close>

theorem OrElse_Ok_Error:
  "OrElse (Ok x) f = ret (Ok x)
   \<and> OrElse (Ok x) nil_func = ret (Ok x)
   \<and> OrElse (Error z (Some e)) f = f (Some e)"
  by (auto simp: OrElse_def step_defs fun_eq_iff)

text \<open>
  C7, refuted as stated. The claim: on an absent reference FromNilable yields a
  computation that fails with \<^verbatim>\<open>onNil()\<close>, for every \<open>onNil\<close>. A \<^verbatim>\<open>func() error\<close>
  may return nil, and \<^verbatim>\<open>Error[A](nil)\<close> returns \<^verbatim>\<open>(zero, nil)\<close>: with an \<open>onNil\<close>
  that returns nil, FromNilable on an absent reference builds a computation that
  succeeds with the zero value.
\<close>

theorem FromNilable_nil_error_counterexample:
  "FromNilable (0 :: go_int) None (ret (None :: string option)) (0 :: nat)
     = Returns (Error 0 None) 0
   \<and> yields (invoke (FromNilable (0 :: go_int) None (ret (None :: string option)))) (0 :: nat)
       = Returns (Success 0) 0"
  by (simp add: FromNilable_def run_defs)

text \<open>
  C7, as amended. On an absent reference FromNilable calls \<open>onNil\<close> and, when that
  returns an error \<open>e\<close> (not nil), yields the computation that fails with \<open>e\<close>. On a
  present reference it yields the computation that succeeds with the value referred
  to, whatever \<open>onNil\<close> is and with no effect, so \<open>onNil\<close> is not invoked (it may be
  nil).
\<close>

theorem FromNilable_absent_present:
  "(onNil (s :: 's) = Returns (Some e) s' \<longrightarrow>
      FromNilable za None onNil s = Returns (Error za (Some e)) s'
      \<and> yields (invoke (FromNilable za None onNil)) s = Returns (Failure e) s')
   \<and> yields (Error za (Some e) :: ('a, 'e, 's) Result) = ret (Failure e)
   \<and> FromNilable za (Some v) onNil = ret (Ok v)
   \<and> FromNilable za (Some v) (panic :: ('s, 'e option) go) = ret (Ok v)
   \<and> yields (invoke (FromNilable za (Some v) onNil)) = ret (Success v)
   \<and> yields (Ok v :: ('a, 'e, 's) Result) = ret (Success v)"
  by (auto simp: FromNilable_def deref_def run_defs fun_eq_iff)

theorem FromNilable_absent_present_witness:
  "FromNilable (0 :: go_int) None (ret errFailed) (0 :: nat)
     = Returns (Error 0 (Some ''failed'')) 0
   \<and> yields (invoke (FromNilable (0 :: go_int) None (ret errFailed))) (0 :: nat)
       = Returns (Failure ''failed'') 0
   \<and> FromNilable (0 :: go_int) (Some 42) (ret errFailed)
       = (ret (Ok 42) :: (nat, (go_int, string, nat) Result) go)"
  using FromNilable_absent_present [where onNil = "ret errFailed" and s = "0 :: nat"
      and e = "''failed''" and s' = 0 and za = "0 :: go_int" and v = 42]
  by (simp add: errFailed_def ret_def)

text \<open>
  C8, refuted as stated. The claim: when \<open>ma\<close> succeeds with \<open>v\<close> and the predicate
  does not hold of \<open>v\<close>, FilterOrElse fails with \<^verbatim>\<open>onFalse(v)\<close>, for every \<open>onFalse\<close>.
  A \<^verbatim>\<open>func(A) error\<close> may return nil, and \<^verbatim>\<open>Error[A](nil)\<close> returns
  \<^verbatim>\<open>(zero, nil)\<close>: with an \<open>onFalse\<close> that returns nil,
  \<^verbatim>\<open>FilterOrElse(Ok(-1), isPositive, onFalse)\<close> builds a computation that succeeds with
  the zero value 0, neither a failure nor a success with -1.
\<close>

theorem FilterOrElse_nil_error_counterexample:
  "FilterOrElse 0 (Ok (- 1)) isPositive (pure (\<lambda>n. (None :: string option))) (0 :: nat)
     = Returns (Error 0 None) 0
   \<and> yields (invoke (FilterOrElse 0 (Ok (- 1)) isPositive
         (pure (\<lambda>n. (None :: string option))))) (0 :: nat)
       = Returns (Success 0) 0"
  by (simp add: FilterOrElse_def Chain_def isPositive_def run_defs)

text \<open>
  C8, as amended. FilterOrElse propagates a failure of \<open>ma\<close>; when \<open>ma\<close> succeeds with
  \<open>v\<close> it succeeds with \<open>v\<close> if the predicate holds of \<open>v\<close>, and if it does not and
  \<open>onFalse v\<close> returns an error \<open>e'\<close> (not nil) it fails with \<open>e'\<close>. In particular,
  for \<open>mkErr\<close> that returns an error, \<^verbatim>\<open>FilterOrElse(Ok(-1), isPositive, mkErr)\<close> fails
  with \<^verbatim>\<open>mkErr(-1)\<close> and \<^verbatim>\<open>FilterOrElse(Ok(5), isPositive, mkErr)\<close> succeeds with 5.
\<close>

theorem FilterOrElse_cases:
  "(ma (s :: 's) = Returns (a, Some e) s1 \<longrightarrow>
      FilterOrElse za ma p onFalse s = Returns (Error za (Some e)) s1
      \<and> yields (invoke (FilterOrElse za ma p onFalse)) s = Returns (Failure e) s1)
   \<and> (ma s = Returns (v, None) s1 \<and> p v s1 = Returns True s2 \<longrightarrow>
      FilterOrElse za ma p onFalse s = Returns (Ok v) s2
      \<and> yields (invoke (FilterOrElse za ma p onFalse)) s = Returns (Success v) s2)
   \<and> (ma s = Returns (v, None) s1 \<and> p v s1 = Returns False s2
        \<and> onFalse v s2 = Returns (Some e') s3 \<longrightarrow>
      FilterOrElse za ma p onFalse s = Returns (Error za (Some e')) s3
      \<and> yields (invoke (FilterOrElse za ma p onFalse)) s = Returns (Failure e') s3)
   \<and> FilterOrElse 0 (Ok (- 1)) isPositive (pure (\<lambda>n. Some (mkErr n)))
       = (ret (Error 0 (Some (mkErr (- 1)))) :: ('s, (go_int, 'e, 's) Result) go)
   \<and> yields (invoke (FilterOrElse 0 (Ok (- 1)) isPositive (pure (\<lambda>n. Some (mkErr n)))))
       = (ret (Failure (mkErr (- 1))) :: ('s, ('e, go_int) outcome) go)
   \<and> FilterOrElse 0 (Ok 5) isPositive (pure (\<lambda>n. Some (mkErr n)))
       = (ret (Ok 5) :: ('s, (go_int, 'e, 's) Result) go)
   \<and> yields (invoke (FilterOrElse 0 (Ok 5) isPositive (pure (\<lambda>n. Some (mkErr n)))))
       = (ret (Success 5) :: ('s, ('e, go_int) outcome) go)"
  by (auto simp: FilterOrElse_def Chain_def isPositive_def run_defs fun_eq_iff)

theorem FilterOrElse_cases_witness:
  "FilterOrElse 0 (Error 0 errFailed) isPositive (\<lambda>n. ret (Some ''not positive'')) (0 :: nat)
     = Returns (Error 0 (Some ''failed'')) 0
   \<and> FilterOrElse 0 tick isPositive (\<lambda>n. ret (Some ''not positive'')) 1 = Returns (Ok 1) 2
   \<and> FilterOrElse 0 tick isPositive (\<lambda>n. ret (Some ''not positive'')) 0
       = Returns (Error 0 (Some ''not positive'')) 1
   \<and> yields (invoke (FilterOrElse 0 tick isPositive (\<lambda>n. ret (Some ''not positive'')))) 0
       = Returns (Failure ''not positive'') 1"
  using
    FilterOrElse_cases [where ma = "Error 0 errFailed" and s = "0 :: nat" and a = 0
      and e = "''failed''" and ?s1.0 = 0 and za = 0 and p = isPositive
      and onFalse = "\<lambda>n. ret (Some ''not positive'')" and v = 0 and ?s2.0 = 0
      and ?s3.0 = 0 and e' = "''x''" and mkErr = "\<lambda>n. ''x''"]
    FilterOrElse_cases [where ma = tick and s = 1 and v = 1 and ?s1.0 = 2 and ?s2.0 = 2
      and za = 0 and p = isPositive and onFalse = "\<lambda>n. ret (Some ''not positive'')"
      and a = 0 and e = "''x''" and ?s3.0 = 0 and e' = "''x''" and mkErr = "\<lambda>n. ''x''"]
    FilterOrElse_cases [where ma = tick and s = 0 and v = 0 and ?s1.0 = 1 and ?s2.0 = 1
      and ?s3.0 = 1 and e' = "''not positive''" and za = 0 and p = isPositive
      and onFalse = "\<lambda>n. ret (Some ''not positive'')" and a = 0 and e = "''x''"
      and mkErr = "\<lambda>n. ''x''"]
  by (simp add: step_defs helper_defs)

subsection \<open>Consumption\<close>

text \<open>
  C9. Fold and Fork invoke \<open>ma\<close> once and then call exactly one handler, the one that
  matches the outcome: \<open>onError\<close> with the error after a failure, \<open>onSuccess\<close> with the
  value after a success, in the state \<open>ma\<close> left; Fold returns what that handler
  returns. Counted, \<open>ma\<close> is invoked once, and the two handlers together are called
  once.
\<close>

theorem Fold_Fork_dispatch:
  "(ma (s :: 's) = Returns (a, Some e) s1 \<longrightarrow>
      Fold ma onError onSuccess s = onError (Some e) s1
      \<and> Fork ma onErr onSucc s = onErr (Some e) s1)
   \<and> (ma s = Returns (a, None) s1 \<longrightarrow>
      Fold ma onError onSuccess s = onSuccess a s1
      \<and> Fork ma onErr onSucc s = onSucc a s1)
   \<and> invocations (Fold (counted ma) (lifted_fn onError) (lifted_fn onSuccess)) s
       = (if returns (Fold ma onError onSuccess) s then Some 1 else None)
   \<and> invocations (Fold (lifted ma) (counted_fn onError) (counted_fn onSuccess)) s
       = (if returns (Fold ma onError onSuccess) s then Some 1 else None)
   \<and> invocations (Fork (counted ma) (lifted_fn onErr) (lifted_fn onSucc)) s
       = (if returns (Fork ma onErr onSucc) s then Some 1 else None)
   \<and> invocations (Fork (lifted ma) (counted_fn onErr) (counted_fn onSucc)) s
       = (if returns (Fork ma onErr onSucc) s then Some 1 else None)"
  by (auto simp: Fold_def Fork_def count_defs split: run.splits prod.splits)

theorem Fold_Fork_dispatch_witness:
  "Fold (Error (0 :: go_int) errFailed) wrappedError (pure (\<lambda>a. None)) (0 :: nat)
     = Returns (Some ''wrapped: failed'') 0
   \<and> Fork (Error (0 :: go_int) errFailed) (\<lambda>e n. Returns () (n + 10))
         (\<lambda>a n. Returns () (n + 100)) (0 :: nat)
     = Returns () 10
   \<and> Fold tick wrappedError (pure (\<lambda>a. None)) 0 = Returns None 1
   \<and> Fork tick (\<lambda>e n. Returns () (n + 10)) (\<lambda>a n. Returns () (n + 100)) 0 = Returns () 101
   \<and> invocations (Fork (counted tick) (lifted_fn (\<lambda>e n. Returns () (n + 10)))
         (lifted_fn (\<lambda>a n. Returns () (n + 100)))) 0 = Some 1
   \<and> invocations (Fork (lifted tick) (counted_fn (\<lambda>e n. Returns () (n + 10)))
         (counted_fn (\<lambda>a n. Returns () (n + 100)))) 0 = Some 1"
  using
    Fold_Fork_dispatch [where ma = "Error (0 :: go_int) errFailed" and s = "0 :: nat" and a = 0
      and e = "''failed''" and ?s1.0 = 0 and onError = wrappedError
      and onSuccess = "pure (\<lambda>a. None)" and onErr = "\<lambda>e n. Returns () (n + 10)"
      and onSucc = "\<lambda>a n. Returns () (n + 100)"]
    Fold_Fork_dispatch [where ma = tick and s = 0 and a = 0
      and e = "''failed''" and ?s1.0 = 1 and onError = wrappedError
      and onSuccess = "pure (\<lambda>a. None)" and onErr = "\<lambda>e n. Returns () (n + 10)"
      and onSucc = "\<lambda>a n. Returns () (n + 100)"]
  by (simp add: Fold_def Fork_def count_defs step_defs pure_def helper_defs)

subsection \<open>Bimap and the two single maps\<close>

text \<open>
  C10, refuted as stated. The claim: for every computation \<open>fa\<close>,
  \<^verbatim>\<open>Bimap(fa, f, g)\<close> yields what \<^verbatim>\<open>Map(MapError(fa, f), g)\<close> yields. MapError returns
  a succeeding \<open>fa\<close> itself, and Map then invokes it a second time, where Bimap
  invokes \<open>fa\<close> once. From state 0, \<^verbatim>\<open>Bimap(tick, wrappedError, double)\<close> succeeds with
  0 and leaves the state at 1; \<^verbatim>\<open>Map(MapError(tick, wrappedError), double)\<close> succeeds
  with 2 and leaves the state at 2.
\<close>

theorem Bimap_two_maps_counterexample:
  "yields (invoke (Bimap 0 tick wrappedError double)) 0 = Returns (Success 0) 1
   \<and> yields (invoke (call (MapError 0 tick wrappedError) (\<lambda>m. Map 0 m double))) 0
       = Returns (Success 2) 2
   \<and> yields (invoke (Bimap 0 tick wrappedError double)) 0
       \<noteq> yields (invoke (call (MapError 0 tick wrappedError) (\<lambda>m. Map 0 m double))) 0"
  by (simp add: Bimap_def MapError_def Map_def run_defs helper_defs)

text \<open>
  C10, as amended. Let \<open>fa\<close>, invoked again right after it succeeded, succeed again with
  the same value and no further effect (as \<^verbatim>\<open>Ok(a)\<close>, \<^verbatim>\<open>Error(e)\<close> and every
  computation without effects do), and let \<open>f\<close> map an error to an error, never to nil.
  Then \<^verbatim>\<open>Map(MapError(fa, f), g)\<close> is \<^verbatim>\<open>Bimap(fa, f, g)\<close>: the same effects while
  building, the same computation built, so the same outcome when invoked. When \<open>fa\<close>
  fails with \<open>e\<close> and \<open>f\<close> returns \<open>e'\<close> for it, Bimap fails with \<open>e'\<close>; when \<open>fa\<close>
  succeeds with \<open>a\<close> and \<open>g\<close> returns \<open>b\<close> for it, Bimap succeeds with \<open>b\<close>.
\<close>

theorem Bimap_two_maps:
  assumes "\<forall>s a s'. fa s = Returns (a, None) s' \<longrightarrow> fa s' = Returns (a, None) s'"
    and "\<forall>e s s'. f (Some e) s \<noteq> Returns None s'"
  shows "call (MapError za fa f) (\<lambda>m. Map zb m g) = Bimap zb fa f g
    \<and> yields (invoke (call (MapError za fa f) (\<lambda>m. Map zb m g)))
        = yields (invoke (Bimap zb fa f g))
    \<and> (fa s = Returns (a, Some e) s1 \<and> f (Some e) s1 = Returns (Some e') s2 \<longrightarrow>
        Bimap zb fa f g s = Returns (Error zb (Some e')) s2)
    \<and> (fa s = Returns (a, None) s1 \<and> g a s1 = Returns b s2 \<longrightarrow>
        Bimap zb fa f g s = Returns (Ok b) s2)"
proof -
  have same: "call (MapError za fa f) (\<lambda>m. Map zb m g) = Bimap zb fa f g"
    by (rule Bimap_as_maps [OF assms])
  have failure: "fa s = Returns (a, Some e) s1 \<and> f (Some e) s1 = Returns (Some e') s2 \<longrightarrow>
      Bimap zb fa f g s = Returns (Error zb (Some e')) s2"
    by (simp add: Bimap_def step_defs)
  have success: "fa s = Returns (a, None) s1 \<and> g a s1 = Returns b s2 \<longrightarrow>
      Bimap zb fa f g s = Returns (Ok b) s2"
    by (simp add: Bimap_def step_defs)
  show ?thesis
    using same failure success by simp
qed

theorem Bimap_two_maps_witness:
  "call (MapError 0 (Ok (- 1)) wrappedError) (\<lambda>m. Map False m isPositive)
     = (Bimap False (Ok (- 1)) wrappedError isPositive
         :: (nat, (bool, string, nat) Result) go)
   \<and> Bimap False (Ok (- 1)) wrappedError isPositive (0 :: nat) = Returns (Ok False) 0
   \<and> Bimap False (Error (0 :: go_int) errFailed) wrappedError isPositive (0 :: nat)
       = Returns (Error False (Some ''wrapped: failed'')) 0"
proof -
  have wrapped: "\<forall>e s s'. wrappedError (Some e) (s :: nat) \<noteq> Returns None s'"
    by (simp add: wrappedError_def ret_def)
  have ok: "\<forall>s a s'. (Ok (- 1) :: (go_int, string, nat) Result) s = Returns (a, None) s'
      \<longrightarrow> (Ok (- 1) :: (go_int, string, nat) Result) s' = Returns (a, None) s'"
    by (simp add: Ok_def ret_def)
  have err: "\<forall>s a s'.
      (Error 0 errFailed :: (go_int, string, nat) Result) s = Returns (a, None) s'
      \<longrightarrow> (Error 0 errFailed :: (go_int, string, nat) Result) s' = Returns (a, None) s'"
    by (simp add: Error_def ret_def)
  have succeeds: "(Ok (- 1) :: (go_int, string, nat) Result) 0 = Returns (- 1, None) 0
      \<and> isPositive (- 1) (0 :: nat) = Returns False 0"
    by (simp add: Ok_def isPositive_def ret_def)
  have fails:
    "(Error 0 errFailed :: (go_int, string, nat) Result) 0 = Returns (0, Some ''failed'') 0
      \<and> wrappedError (Some ''failed'') (0 :: nat) = Returns (Some ''wrapped: failed'') 0"
    by (simp add: Error_def errFailed_def wrappedError_def ret_def)
  show ?thesis
    using succeeds fails
      Bimap_two_maps [OF ok wrapped, where za = 0 and zb = False and g = isPositive and s = 0
        and a = "- 1" and ?s1.0 = 0 and b = False and ?s2.0 = 0 and e = "''x''"
        and e' = "''x''"]
      Bimap_two_maps [OF err wrapped, where za = 0 and zb = False and g = isPositive and s = 0
        and a = 0 and e = "''failed''" and ?s1.0 = 0 and e' = "''wrapped: failed''"
        and ?s2.0 = 0 and b = False]
    by simp
qed

end
